theory Spec2Isabelle
  imports Main "HOL-Library.Word" "HOL-Library.Code_Target_Numeral"
begin

section \<open>ExternalCaller: the cdecl caller stub and the remote call\<close>

text \<open>
  The development follows \<^verbatim>\<open>src/ExternalCaller/src/external_caller.c\<close>, a C99 program
  for i686 Windows. \<^verbatim>\<open>DWORD\<close> and \<^verbatim>\<open>unsigned __int32\<close> are 32-bit words whose
  arithmetic wraps around, \<^verbatim>\<open>unsigned __int8\<close> is a byte, \<^verbatim>\<open>int\<close> is a 32-bit
  signed integer whose overflow is undefined, and a pointer is 32 bits wide.
\<close>

unbundle bit_operations_syntax

subsection \<open>Machine types\<close>

type_synonym byte = "8 word"
type_synonym dword = "32 word"
type_synonym handle = "32 word"

text \<open>
  What C leaves undefined is a value of the model: a write or a read outside an
  object, a write through the null pointer that a failed \<^verbatim>\<open>malloc\<close> returns, and
  the overflow of the \<^verbatim>\<open>int\<close> product \<^verbatim>\<open>i * 5\<close>.
\<close>

datatype undefined_behaviour =
    NullDereference
  | WriteOutOfBounds
  | ReadOutOfBounds
  | SignedOverflow

definition INT_MAX :: nat where
  "INT_MAX = 2147483647"

subsection \<open>The stub buffer\<close>

text \<open>
  \<^verbatim>\<open>malloc(caller_size)\<close> returns a block of \<^verbatim>\<open>caller_size\<close> bytes whose contents
  are indeterminate: a cell is \<open>None\<close> until the code stores a byte in it.
\<close>

type_synonym buffer = "byte option list"

definition malloc_block :: "dword \<Rightarrow> buffer" where
  "malloc_block n = replicate (unat n) None"

text \<open>\<^verbatim>\<open>caller_bytes[idx] = v\<close>\<close>

definition store_u8 :: "buffer \<Rightarrow> nat \<Rightarrow> byte \<Rightarrow> undefined_behaviour + buffer" where
  "store_u8 buf idx v =
     (if idx < length buf then Inr (buf[idx := Some v]) else Inl WriteOutOfBounds)"

text \<open>The four bytes of a 32-bit value in the order i686 stores them, lowest first.\<close>

definition le_bytes :: "dword \<Rightarrow> byte list" where
  "le_bytes w = [ucast w, ucast (drop_bit 8 w), ucast (drop_bit 16 w), ucast (drop_bit 24 w)]"

text \<open>\<^verbatim>\<open>*(unsigned __int32*)(caller_bytes + idx) = w\<close>: the store covers \<open>idx .. idx + 3\<close>.\<close>

definition store_u32 :: "buffer \<Rightarrow> nat \<Rightarrow> dword \<Rightarrow> undefined_behaviour + buffer" where
  "store_u32 buf idx w =
     (if idx + 4 \<le> length buf
      then Inr (buf[idx := Some (le_bytes w ! 0), idx + 1 := Some (le_bytes w ! 1),
                    idx + 2 := Some (le_bytes w ! 2), idx + 3 := Some (le_bytes w ! 3)])
      else Inl WriteOutOfBounds)"

text \<open>\<^verbatim>\<open>args[idx]\<close>, the array \<^verbatim>\<open>args\<close> being the list of the values it holds.\<close>

definition load_arg :: "dword list \<Rightarrow> nat \<Rightarrow> undefined_behaviour + dword" where
  "load_arg args idx = (if idx < length args then Inr (args ! idx) else Inl ReadOutOfBounds)"

text \<open>Reading the stub back: a 32-bit field at an offset, defined when its four cells are.\<close>

definition word_of_le_bytes :: "byte \<Rightarrow> byte \<Rightarrow> byte \<Rightarrow> byte \<Rightarrow> dword" where
  "word_of_le_bytes b0 b1 b2 b3 =
     ucast b0 OR push_bit 8 (ucast b1) OR push_bit 16 (ucast b2) OR push_bit 24 (ucast b3)"

definition fetch_u32 :: "buffer \<Rightarrow> nat \<Rightarrow> dword option" where
  "fetch_u32 buf idx =
     (if idx + 4 \<le> length buf then
        (case (buf ! idx, buf ! (idx + 1), buf ! (idx + 2), buf ! (idx + 3)) of
           (Some b0, Some b1, Some b2, Some b3) \<Rightarrow> Some (word_of_le_bytes b0 b1 b2 b3)
         | _ \<Rightarrow> None)
      else None)"

subsection \<open>Assembling the caller\<close>

text \<open>
  \<^verbatim>\<open>DWORD caller_size = (1 + 4) * argc + 1 + 4 + 3 + 1;\<close> in 32-bit unsigned
  arithmetic.
\<close>

definition caller_size :: "dword \<Rightarrow> dword" where
  "caller_size argc = (1 + 4) * argc + 1 + 4 + 3 + 1"

text \<open>
  The loop \<^verbatim>\<open>for (int i = 0; i < argc; i++)\<close>. The counter is an \<^verbatim>\<open>int\<close> that
  starts at 0 and is compared with \<^verbatim>\<open>argc\<close> as an unsigned value; the product
  \<^verbatim>\<open>i * 5\<close> is an \<^verbatim>\<open>int\<close> product and must not exceed \<open>INT_MAX\<close>;
  \<^verbatim>\<open>argc - i - 1\<close> is computed in 32-bit unsigned arithmetic.
\<close>

function push_args :: "dword \<Rightarrow> dword list \<Rightarrow> nat \<Rightarrow> buffer \<Rightarrow> undefined_behaviour + buffer" where
  "push_args argc args i caller_bytes =
     (if i < unat argc then
        (if INT_MAX < i * 5 then Inl SignedOverflow
         else case store_u8 caller_bytes (i * 5) 0x68 of
           Inl u \<Rightarrow> Inl u
         | Inr b1 \<Rightarrow>
             (case load_arg args (unat (argc - of_nat i - 1)) of
                Inl u \<Rightarrow> Inl u
              | Inr a \<Rightarrow>
                  (case store_u32 b1 (i * 5 + 1) a of
                     Inl u \<Rightarrow> Inl u
                   | Inr b2 \<Rightarrow> push_args argc args (i + 1) b2)))
      else Inr caller_bytes)"
  by pat_completeness auto
termination
  by (relation "measure (\<lambda>(argc, args, i, b). unat argc - i)") auto

declare push_args.simps [simp del]

text \<open>
  The stores of the source after the loop, in its order: the call opcode, the
  displacement, the two bytes of \<^verbatim>\<open>add esp\<close>, its one-byte immediate
  (\<^verbatim>\<open>4 * argc\<close> converted to \<^verbatim>\<open>unsigned __int8\<close>) and \<^verbatim>\<open>ret\<close>. The
  indices \<^verbatim>\<open>argc * 5 + k\<close> are 32-bit unsigned values.
\<close>

definition write_caller ::
  "buffer option \<Rightarrow> dword \<Rightarrow> dword \<Rightarrow> dword \<Rightarrow> dword list \<Rightarrow> undefined_behaviour + buffer" where
  "write_caller block function_address caller_address argc args =
     (case block of
        None \<Rightarrow> Inl NullDereference
      | Some caller_bytes \<Rightarrow>
     (case push_args argc args 0 caller_bytes of
        Inl u \<Rightarrow> Inl u
      | Inr b1 \<Rightarrow>
     (case store_u8 b1 (unat (argc * 5)) 0xe8 of
        Inl u \<Rightarrow> Inl u
      | Inr b2 \<Rightarrow>
     (case store_u32 b2 (unat (argc * 5) + 1)
             (function_address - (caller_address + argc * 5) - 5) of
        Inl u \<Rightarrow> Inl u
      | Inr b3 \<Rightarrow>
     (case store_u8 b3 (unat (argc * 5 + 5)) 0x83 of
        Inl u \<Rightarrow> Inl u
      | Inr b4 \<Rightarrow>
     (case store_u8 b4 (unat (argc * 5 + 6)) 0xc4 of
        Inl u \<Rightarrow> Inl u
      | Inr b5 \<Rightarrow>
     (case store_u8 b5 (unat (argc * 5 + 7)) (ucast (4 * argc)) of
        Inl u \<Rightarrow> Inl u
      | Inr b6 \<Rightarrow> store_u8 b6 (unat (argc * 5 + 8)) 0xc3)))))))"

text \<open>
  The layout that the header comment of the source documents under "Caller structure":
  one \<^verbatim>\<open>68 XXXXXXXX\<close> per argument, the last argument first, then
  \<^verbatim>\<open>E8 XXXXXXXX\<close>, \<^verbatim>\<open>83 C4 XX\<close> and \<^verbatim>\<open>C3\<close>. \<open>pushes argc args i\<close> are the
  bytes of the first \<open>i\<close> push instructions.
\<close>

definition push_bytes :: "dword \<Rightarrow> byte list" where
  "push_bytes a = 0x68 # le_bytes a"

fun pushes :: "dword \<Rightarrow> dword list \<Rightarrow> nat \<Rightarrow> byte list" where
  "pushes argc args 0 = []"
| "pushes argc args (Suc i) = pushes argc args i @ push_bytes (args ! (unat argc - Suc i))"

definition caller_layout :: "dword \<Rightarrow> dword \<Rightarrow> dword \<Rightarrow> dword list \<Rightarrow> byte list" where
  "caller_layout function_address caller_address argc args =
     pushes argc args (unat argc)
     @ 0xe8 # le_bytes (function_address - (caller_address + argc * 5) - 5)
     @ [0x83, 0xc4, ucast (4 * argc), 0xc3]"

subsection \<open>The Windows calls and the trace of a run\<close>

text \<open>
  The results of the Windows and C library calls are not decided by the program. They
  are the fields of an environment: the handle \<^verbatim>\<open>OpenProcess\<close> returns for a
  process identifier, the address \<^verbatim>\<open>VirtualAllocEx\<close> returns for a handle and a
  size, whether \<^verbatim>\<open>malloc\<close> returns a block, the handle \<^verbatim>\<open>CreateRemoteThread\<close>
  returns, the value of the \<open>k\<close>-th call of \<^verbatim>\<open>WaitForSingleObject\<close> on a handle, and
  the exit code \<^verbatim>\<open>GetExitCodeThread\<close> stores, if it stores one. A handle or an
  address 0 is \<^verbatim>\<open>NULL\<close>, the value of a failed call. The source reads the result of
  no other call.
\<close>

record os =
  os_OpenProcess :: "dword \<Rightarrow> handle"
  os_VirtualAllocEx :: "handle \<Rightarrow> dword \<Rightarrow> dword"
  os_malloc :: "dword \<Rightarrow> bool"
  os_CreateRemoteThread :: "handle \<Rightarrow> dword \<Rightarrow> handle"
  os_WaitForSingleObject :: "handle \<Rightarrow> nat \<Rightarrow> dword"
  os_GetExitCodeThread :: "handle \<Rightarrow> dword option"

text \<open>The free type the source passes to \<^verbatim>\<open>VirtualFreeEx\<close> is \<^verbatim>\<open>MEM_FREE\<close>.\<close>

datatype free_type = MEM_DECOMMIT | MEM_RELEASE | MEM_FREE

text \<open>
  One event per call the function makes, with the arguments that vary and, for the
  calls whose result the source keeps, the result.
\<close>

datatype event =
    OpenProcess dword handle
  | VirtualAllocEx handle dword dword
  | Malloc dword bool
  | WriteProcessMemory handle dword buffer dword
  | CreateRemoteThread handle dword handle
  | WaitForSingleObject handle dword dword
  | GetExitCodeThread handle "dword option"
  | CloseHandle handle
  | Free
  | VirtualFreeEx handle dword dword free_type

text \<open>
  A run returns a \<^verbatim>\<open>DWORD\<close>, or meets undefined behaviour while it assembles the
  caller, or never leaves the loop that waits for the thread.
\<close>

datatype outcome = Returned dword | Undefined undefined_behaviour | Hangs

text \<open>
  \<^verbatim>\<open>while (WaitForSingleObject(thread_handle, 0) != 0) {}\<close>: the loop calls again
  until a call returns 0. It yields the number of calls made, and nothing when no call
  returns 0.
\<close>

partial_function (option) wait_loop :: "os \<Rightarrow> handle \<Rightarrow> nat \<Rightarrow> nat option" where
  "wait_loop os thread_handle k =
     (if os_WaitForSingleObject os thread_handle k \<noteq> 0
      then wait_loop os thread_handle (Suc k)
      else Some (Suc k))"

declare wait_loop.simps [code]

definition wait_events :: "os \<Rightarrow> handle \<Rightarrow> nat \<Rightarrow> event list" where
  "wait_events os thread_handle n =
     map (\<lambda>k. WaitForSingleObject thread_handle 0 (os_WaitForSingleObject os thread_handle k)) [0..<n]"

text \<open>
  The function, statement by statement: \<^verbatim>\<open>OpenProcess\<close>, \<^verbatim>\<open>VirtualAllocEx\<close>,
  \<^verbatim>\<open>malloc\<close>, the assembly, \<^verbatim>\<open>WriteProcessMemory\<close>, \<^verbatim>\<open>CreateRemoteThread\<close>, the
  waiting loop, \<^verbatim>\<open>result = 0\<close> and \<^verbatim>\<open>GetExitCodeThread(thread_handle, &result)\<close>, the
  four releases and \<^verbatim>\<open>return result\<close>. No result of a call is tested. The trace of a
  run that hangs holds the calls made before the waiting loop; the trace of a run that
  meets undefined behaviour holds the calls made before the caller is assembled.
\<close>

definition call_external_cdecl_function ::
  "os \<Rightarrow> dword \<Rightarrow> dword \<Rightarrow> dword \<Rightarrow> dword list \<Rightarrow> outcome \<times> event list" where
  "call_external_cdecl_function os process_id function_address argc args =
     (let process_handle = os_OpenProcess os process_id;
          caller_address = os_VirtualAllocEx os process_handle (caller_size argc);
          block = (if os_malloc os (caller_size argc)
                   then Some (malloc_block (caller_size argc)) else None);
          allocated = [OpenProcess process_id process_handle,
                       VirtualAllocEx process_handle (caller_size argc) caller_address,
                       Malloc (caller_size argc) (os_malloc os (caller_size argc))]
      in case write_caller block function_address caller_address argc args of
           Inl u \<Rightarrow> (Undefined u, allocated)
         | Inr caller_bytes \<Rightarrow>
             (let thread_handle = os_CreateRemoteThread os process_handle caller_address;
                  started = allocated @
                    [WriteProcessMemory process_handle caller_address caller_bytes (caller_size argc),
                     CreateRemoteThread process_handle caller_address thread_handle]
              in case wait_loop os thread_handle 0 of
                   None \<Rightarrow> (Hangs, started)
                 | Some n \<Rightarrow>
                     (let exit_code = os_GetExitCodeThread os thread_handle;
                          result = (case exit_code of None \<Rightarrow> 0 | Some v \<Rightarrow> v)
                      in (Returned result,
                          started @ wait_events os thread_handle n @
                          [GetExitCodeThread thread_handle exit_code,
                           CloseHandle thread_handle,
                           Free,
                           VirtualFreeEx process_handle caller_address (caller_size argc) MEM_FREE,
                           CloseHandle process_handle]))))"

text \<open>The values the locals of the function hold in a run.\<close>

definition process_handle_of :: "os \<Rightarrow> dword \<Rightarrow> handle" where
  "process_handle_of os process_id = os_OpenProcess os process_id"

definition caller_address_of :: "os \<Rightarrow> dword \<Rightarrow> dword \<Rightarrow> dword" where
  "caller_address_of os process_id argc =
     os_VirtualAllocEx os (process_handle_of os process_id) (caller_size argc)"

definition thread_handle_of :: "os \<Rightarrow> dword \<Rightarrow> dword \<Rightarrow> handle" where
  "thread_handle_of os process_id argc =
     os_CreateRemoteThread os (process_handle_of os process_id) (caller_address_of os process_id argc)"

fun is_returned :: "outcome \<Rightarrow> bool" where
  "is_returned (Returned v) = True"
| "is_returned _ = False"

text \<open>
  The events the cleanup property counts: an acquisition that succeeded (a handle or an
  address that is not \<^verbatim>\<open>NULL\<close>, a block from \<^verbatim>\<open>malloc\<close>), a release, a remote
  allocation request, and a wait.
\<close>

fun is_acquired :: "event \<Rightarrow> bool" where
  "is_acquired (OpenProcess pid h) = (h \<noteq> 0)"
| "is_acquired (VirtualAllocEx h n a) = (a \<noteq> 0)"
| "is_acquired (Malloc n ok) = ok"
| "is_acquired (CreateRemoteThread h a t) = (t \<noteq> 0)"
| "is_acquired _ = False"

fun is_release :: "event \<Rightarrow> bool" where
  "is_release (CloseHandle h) = True"
| "is_release Free = True"
| "is_release (VirtualFreeEx h a n ft) = True"
| "is_release _ = False"

fun is_remote_allocation :: "event \<Rightarrow> bool" where
  "is_remote_allocation (VirtualAllocEx h n a) = True"
| "is_remote_allocation _ = False"

fun is_wait :: "event \<Rightarrow> bool" where
  "is_wait (WaitForSingleObject h ms r) = True"
| "is_wait _ = False"

text \<open>Reading a cell of what the assembly produced: nothing when it produced no stub.\<close>

definition stub_byte :: "undefined_behaviour + buffer \<Rightarrow> nat \<Rightarrow> byte option" where
  "stub_byte r k = (case r of Inl u \<Rightarrow> None | Inr b \<Rightarrow> if k < length b then b ! k else None)"

subsection \<open>The entry point\<close>

text \<open>
  \<^verbatim>\<open>atoi\<close> and \<open>strtoul(_, NULL, 16)\<close> belong to the C library: they are the fields
  of a second environment. \<^verbatim>\<open>argv\<close> is the list of the strings of the command line,
  the program name first, \<^verbatim>\<open>argc\<close> is its length, and \<^verbatim>\<open>argv[argc]\<close> is the null
  pointer.
\<close>

record libc =
  libc_atoi :: "string \<Rightarrow> int"
  libc_strtoul :: "string \<Rightarrow> dword"

text \<open>
  \<^verbatim>\<open>main\<close> prints the usage text and returns \<open>-1\<close>, or meets undefined behaviour
  while it fills \<^verbatim>\<open>arguments\<close>, or calls the function and returns what it returns.
\<close>

datatype main_outcome = UsageError | ParseFault undefined_behaviour | Called outcome

text \<open>
  The loop \<^verbatim>\<open>for (int i = 0; i < arguments_number; i++) arguments[i] = atoi(argv[4 + i]);\<close>.
  \<^verbatim>\<open>argv[4 + i]\<close> is read first: past \<^verbatim>\<open>argv[argc]\<close> the read is out of bounds, and
  \<^verbatim>\<open>argv[argc]\<close> itself is the null pointer, which \<^verbatim>\<open>atoi\<close> dereferences. The store
  needs the block that \<^verbatim>\<open>malloc(sizeof(unsigned __int32) * arguments_number)\<close> returned,
  whose size is computed in 32 bits. \<open>arguments\<close> holds the values stored so far.
\<close>

function parse_arguments ::
  "libc \<Rightarrow> string list \<Rightarrow> dword \<Rightarrow> bool \<Rightarrow> nat \<Rightarrow> dword list \<Rightarrow> undefined_behaviour + dword list" where
  "parse_arguments libc argv arguments_number allocated i arguments =
     (if i < unat arguments_number then
        (if INT_MAX < 4 + i then Inl SignedOverflow
         else if length argv < 4 + i then Inl ReadOutOfBounds
         else if length argv = 4 + i then Inl NullDereference
         else if \<not> allocated then Inl NullDereference
         else if unat (4 * arguments_number) div 4 \<le> i then Inl WriteOutOfBounds
         else parse_arguments libc argv arguments_number allocated (i + 1)
                (arguments @ [word_of_int (libc_atoi libc (argv ! (4 + i)))]))
      else Inr arguments)"
  by pat_completeness auto
termination
  by (relation "measure (\<lambda>(libc, argv, n, allocated, i, arguments). unat n - i)") auto

declare parse_arguments.simps [simp del]

text \<open>
  \<^verbatim>\<open>main\<close>: the test \<^verbatim>\<open>argc < 4\<close>, the three conversions (an \<^verbatim>\<open>int\<close> from
  \<^verbatim>\<open>atoi\<close> becomes a \<^verbatim>\<open>DWORD\<close>), the allocation and the loop, the call. The trace
  holds the calls of \<^verbatim>\<open>call_external_cdecl_function\<close>; \<^verbatim>\<open>main\<close> itself calls
  \<^verbatim>\<open>printf\<close>, \<^verbatim>\<open>malloc\<close> and \<^verbatim>\<open>free\<close> only.
\<close>

definition main :: "libc \<Rightarrow> os \<Rightarrow> string list \<Rightarrow> main_outcome \<times> event list" where
  "main libc os argv =
     (if length argv < 4 then (UsageError, [])
      else
        (let process_id = word_of_int (libc_atoi libc (argv ! 1));
             function_address = libc_strtoul libc (argv ! 2);
             arguments_number = word_of_int (libc_atoi libc (argv ! 3));
             allocated = os_malloc os (4 * arguments_number)
         in case parse_arguments libc argv arguments_number allocated 0 [] of
              Inl u \<Rightarrow> (ParseFault u, [])
            | Inr arguments \<Rightarrow>
                (case call_external_cdecl_function os process_id function_address
                        arguments_number arguments of
                   (out, tr) \<Rightarrow> (Called out, tr))))"

text \<open>The values the first locals of \<^verbatim>\<open>main\<close> hold.\<close>

definition process_id_of :: "libc \<Rightarrow> string list \<Rightarrow> dword" where
  "process_id_of libc argv = word_of_int (libc_atoi libc (argv ! 1))"

definition arguments_number_of :: "libc \<Rightarrow> string list \<Rightarrow> dword" where
  "arguments_number_of libc argv = word_of_int (libc_atoi libc (argv ! 3))"

definition arguments_of :: "libc \<Rightarrow> string list \<Rightarrow> dword list" where
  "arguments_of libc argv =
     map (\<lambda>s. word_of_int (libc_atoi libc s))
       (take (unat (arguments_number_of libc argv)) (drop 4 argv))"

subsection \<open>Concrete environments\<close>

text \<open>
  A target that runs the call: every call succeeds, the thread is seen finished at the
  third poll (the first two return \<^verbatim>\<open>WAIT_TIMEOUT\<close>, 0x102) and its exit code is 2.
\<close>

definition os_running :: os where
  "os_running =
     \<lparr>os_OpenProcess = (\<lambda>pid. 0x100),
      os_VirtualAllocEx = (\<lambda>h n. 0x20000),
      os_malloc = (\<lambda>n. True),
      os_CreateRemoteThread = (\<lambda>h a. 0x104),
      os_WaitForSingleObject = (\<lambda>h k. if k < 2 then 0x102 else 0),
      os_GetExitCodeThread = (\<lambda>h. Some 2)\<rparr>"

text \<open>
  No process has the identifier: \<^verbatim>\<open>OpenProcess\<close> returns \<^verbatim>\<open>NULL\<close>, the calls made
  with the null handle fail, and every wait on the null thread handle returns
  \<^verbatim>\<open>WAIT_FAILED\<close>, 0xFFFFFFFF.
\<close>

definition os_no_process :: os where
  "os_no_process =
     \<lparr>os_OpenProcess = (\<lambda>pid. 0),
      os_VirtualAllocEx = (\<lambda>h n. 0),
      os_malloc = (\<lambda>n. True),
      os_CreateRemoteThread = (\<lambda>h a. 0),
      os_WaitForSingleObject = (\<lambda>h k. 0xFFFFFFFF),
      os_GetExitCodeThread = (\<lambda>h. None)\<rparr>"

text \<open>
  The target refuses the allocation: \<^verbatim>\<open>VirtualAllocEx\<close> returns \<^verbatim>\<open>NULL\<close>. The thread
  is created all the same, at address 0, where it faults at once: the first poll
  returns 0 and the exit code is the access violation status 0xC0000005.
\<close>

definition os_no_memory :: os where
  "os_no_memory =
     \<lparr>os_OpenProcess = (\<lambda>pid. 0x100),
      os_VirtualAllocEx = (\<lambda>h n. 0),
      os_malloc = (\<lambda>n. True),
      os_CreateRemoteThread = (\<lambda>h a. 0x104),
      os_WaitForSingleObject = (\<lambda>h k. 0),
      os_GetExitCodeThread = (\<lambda>h. Some 0xC0000005)\<rparr>"

text \<open>The called function never returns: every poll returns \<^verbatim>\<open>WAIT_TIMEOUT\<close>.\<close>

definition os_stalled :: os where
  "os_stalled =
     \<lparr>os_OpenProcess = (\<lambda>pid. 0x100),
      os_VirtualAllocEx = (\<lambda>h n. 0x20000),
      os_malloc = (\<lambda>n. True),
      os_CreateRemoteThread = (\<lambda>h a. 0x104),
      os_WaitForSingleObject = (\<lambda>h k. 0x102),
      os_GetExitCodeThread = (\<lambda>h. None)\<rparr>"

text \<open>
  Two targets that differ in one point only: in the first the called function returns 0
  and \<^verbatim>\<open>GetExitCodeThread\<close> stores that exit code, in the second
  \<^verbatim>\<open>GetExitCodeThread\<close> fails and stores nothing.
\<close>

definition os_returns_zero :: os where
  "os_returns_zero =
     \<lparr>os_OpenProcess = (\<lambda>pid. 0x100),
      os_VirtualAllocEx = (\<lambda>h n. 0x20000),
      os_malloc = (\<lambda>n. True),
      os_CreateRemoteThread = (\<lambda>h a. 0x104),
      os_WaitForSingleObject = (\<lambda>h k. 0),
      os_GetExitCodeThread = (\<lambda>h. Some 0)\<rparr>"

definition os_exit_code_unread :: os where
  "os_exit_code_unread =
     \<lparr>os_OpenProcess = (\<lambda>pid. 0x100),
      os_VirtualAllocEx = (\<lambda>h n. 0x20000),
      os_malloc = (\<lambda>n. True),
      os_CreateRemoteThread = (\<lambda>h a. 0x104),
      os_WaitForSingleObject = (\<lambda>h k. 0),
      os_GetExitCodeThread = (\<lambda>h. None)\<rparr>"

text \<open>
  A C library for plain numerals: \<^verbatim>\<open>atoi\<close> on decimal digits with an optional minus
  sign, \<^verbatim>\<open>strtoul\<close> on hexadecimal digits.
\<close>

definition is_digit :: "char \<Rightarrow> bool" where
  "is_digit c = (48 \<le> (of_char c :: nat) \<and> (of_char c :: nat) \<le> 57)"

definition hex_value :: "char \<Rightarrow> nat option" where
  "hex_value c =
     (let n = (of_char c :: nat)
      in if 48 \<le> n \<and> n \<le> 57 then Some (n - 48)
         else if 97 \<le> n \<and> n \<le> 102 then Some (n - 87)
         else if 65 \<le> n \<and> n \<le> 70 then Some (n - 55)
         else None)"

definition decimal :: "string \<Rightarrow> nat" where
  "decimal s = foldl (\<lambda>a c. 10 * a + (of_char c - 48)) 0 (takeWhile is_digit s)"

definition hexadecimal :: "string \<Rightarrow> nat" where
  "hexadecimal s =
     foldl (\<lambda>a c. 16 * a + (case hex_value c of None \<Rightarrow> 0 | Some d \<Rightarrow> d)) 0
       (takeWhile (\<lambda>c. hex_value c \<noteq> None) s)"

definition libc_numerals :: libc where
  "libc_numerals =
     \<lparr>libc_atoi = (\<lambda>s. case s of [] \<Rightarrow> 0
                           | c # r \<Rightarrow> if c = CHR ''-'' then - int (decimal r) else int (decimal s)),
      libc_strtoul = (\<lambda>s. word_of_nat (min (hexadecimal s) 4294967295))\<rparr>"

section \<open>The assembled bytes\<close>

subsection \<open>Bytes and stores\<close>

lemma le_bytes_roundtrip:
  "word_of_le_bytes (le_bytes w ! 0) (le_bytes w ! 1) (le_bytes w ! 2) (le_bytes w ! 3) = w"
proof (rule bit_word_eqI)
  fix n assume "n < LENGTH(32)"
  then have n: "n < 32" by simp
  consider "n < 8" | "8 \<le> n" "n < 16" | "16 \<le> n" "n < 24" | "24 \<le> n"
    by linarith
  then show "bit (word_of_le_bytes (le_bytes w ! 0) (le_bytes w ! 1) (le_bytes w ! 2) (le_bytes w ! 3)) n = bit w n"
    using n by cases (auto simp add: word_of_le_bytes_def le_bytes_def bit_simps)
qed

lemma length_le_bytes: "length (le_bytes w) = 4"
  by (simp add: le_bytes_def)

lemma length_push_bytes: "length (push_bytes a) = 5"
  by (simp add: push_bytes_def length_le_bytes)

lemma length_pushes: "length (pushes argc args i) = i * 5"
  by (induction i) (simp_all add: length_push_bytes)

lemma store_u8_at:
  "store_u8 (pre @ mid @ c # rest) (length pre + length mid) v = Inr (pre @ mid @ Some v # rest)"
  by (simp add: store_u8_def list_update_append)

lemma store_u32_at:
  "store_u32 (pre @ mid @ c0 # c1 # c2 # c3 # rest) (length pre + length mid) w =
   Inr (pre @ mid @ map Some (le_bytes w) @ rest)"
  by (simp add: store_u32_def list_update_append le_bytes_def)

lemma unat_of_nat_small: "unat (of_nat i :: dword) = i" if "i < unat (argc :: dword)"
proof -
  have "i < 2 ^ LENGTH(32)"
    using that unsigned_less[of argc, where 'a=nat] by simp
  then show ?thesis by (simp add: unat_of_nat)
qed

lemma unat_arg_index:
  assumes "i < unat (argc :: dword)"
  shows "unat (argc - of_nat i - 1) = unat argc - Suc i"
proof -
  have i: "unat (of_nat i :: dword) = i"
    using assms by (rule unat_of_nat_small)
  have le: "(of_nat i :: dword) \<le> argc"
    using assms i by (simp add: word_le_nat_alt)
  have s: "unat (argc - of_nat i) = unat argc - i"
    using le i by (simp add: unat_sub)
  have "(1 :: dword) \<le> argc - of_nat i"
    using s assms by (simp add: word_le_nat_alt)
  then have "unat (argc - of_nat i - 1) = unat (argc - of_nat i) - 1"
    by (simp add: unat_sub)
  then show ?thesis using s by simp
qed

lemma unat_times5:
  assumes "unat (argc :: dword) \<le> 858993457"
  shows "unat (argc * 5) = unat argc * 5"
    and "unat (argc * 5 + 5) = unat argc * 5 + 5"
    and "unat (argc * 5 + 6) = unat argc * 5 + 6"
    and "unat (argc * 5 + 7) = unat argc * 5 + 7"
    and "unat (argc * 5 + 8) = unat argc * 5 + 8"
    and "unat (caller_size argc) = unat argc * 5 + 9"
  using assms by (simp_all add: caller_size_def unat_word_ariths mod_simps)

lemma push_args_fresh:
  assumes "unat argc \<le> length args" and "unat argc \<le> 429496730"
  shows "i \<le> unat argc \<Longrightarrow>
     push_args argc args i (map Some (pushes argc args i) @ replicate ((unat argc - i) * 5) None @ rest) =
     Inr (map Some (pushes argc args (unat argc)) @ rest)"
proof (induction "unat argc - i" arbitrary: i)
  case 0
  then have "i = unat argc" by simp
  then show ?case by (subst push_args.simps) simp
next
  case (Suc d)
  then have lt: "i < unat argc" and d: "d = unat argc - Suc i" by simp_all
  have ov: "\<not> INT_MAX < i * 5" using lt assms(2) by (simp add: INT_MAX_def)
  have rep: "replicate ((unat argc - i) * 5) (None :: byte option) =
       None # None # None # None # None # replicate ((unat argc - Suc i) * 5) None"
  proof -
    have "(unat argc - i) * 5 = Suc (Suc (Suc (Suc (Suc ((unat argc - Suc i) * 5)))))"
      using lt by simp
    then show ?thesis by simp
  qed
  have ld: "load_arg args (unat (argc - of_nat i - 1)) = Inr (args ! (unat argc - Suc i))"
    using lt assms(1) by (simp add: load_arg_def unat_arg_index)
  have IH: "push_args argc args (i + 1)
       (map Some (pushes argc args (Suc i)) @ replicate ((unat argc - Suc i) * 5) None @ rest) =
     Inr (map Some (pushes argc args (unat argc)) @ rest)"
    using Suc.hyps(1)[of "Suc i"] d lt by simp
  let ?P = "map Some (pushes argc args i)"
  let ?R = "replicate ((unat argc - Suc i) * 5) None @ rest"
  have lp: "length ?P = i * 5" by (simp add: length_pushes)
  have s1: "store_u8 (?P @ replicate ((unat argc - i) * 5) None @ rest) (i * 5) 0x68
     = Inr (?P @ [Some 0x68] @ None # None # None # None # ?R)"
    unfolding rep using store_u8_at[of ?P "[]" None "None # None # None # None # ?R" "0x68"] lp
    by simp
  have s2: "store_u32 (?P @ [Some 0x68] @ None # None # None # None # ?R)
       (i * 5 + 1) (args ! (unat argc - Suc i))
     = Inr (map Some (pushes argc args (Suc i)) @ ?R)"
    using store_u32_at[of ?P "[Some 0x68]" None None None None ?R "args ! (unat argc - Suc i)"] lp
    by (simp add: push_bytes_def)
  show ?case
    by (subst push_args.simps) (simp only: lt ov s1 ld s2 IH if_True if_False sum.case)
qed

lemma write_caller_layout:
  assumes "unat argc \<le> length args" and "unat argc \<le> 429496730"
  shows "write_caller (Some (malloc_block (caller_size argc))) function_address caller_address argc args =
     Inr (map Some (caller_layout function_address caller_address argc args))"
proof -
  have b: "unat argc \<le> 858993457" using assms(2) by simp
  have blk: "malloc_block (caller_size argc) =
      map Some (pushes argc args 0) @ replicate ((unat argc - 0) * 5) None @ replicate 9 None"
    by (simp add: malloc_block_def unat_times5(6)[OF b] replicate_add[symmetric])
  have nine: "replicate 9 (None :: byte option) = [None, None, None, None, None, None, None, None, None]"
    by (simp add: numeral_eq_Suc)
  have p: "push_args argc args 0 (malloc_block (caller_size argc)) =
      Inr (map Some (pushes argc args (unat argc)) @ [None, None, None, None, None, None, None, None, None])"
    unfolding blk nine by (rule push_args_fresh[OF assms]) simp
  let ?P = "map Some (pushes argc args (unat argc))"
  let ?d = "function_address - (caller_address + argc * 5) - 5"
  have lp: "length ?P = unat argc * 5" by (simp add: length_pushes)
  have s1: "store_u8 (?P @ [None, None, None, None, None, None, None, None, None]) (unat (argc * 5)) 0xe8
     = Inr (?P @ [Some 0xe8] @ [None, None, None, None, None, None, None, None])"
    using store_u8_at[of ?P "[]" None "[None, None, None, None, None, None, None, None]" "0xe8"] lp
    by (simp add: unat_times5[OF b])
  have s2: "store_u32 (?P @ [Some 0xe8] @ [None, None, None, None, None, None, None, None]) (unat (argc * 5) + 1) ?d
     = Inr (?P @ (Some 0xe8 # map Some (le_bytes ?d)) @ [None, None, None, None])"
    using store_u32_at[of ?P "[Some 0xe8]" None None None None "[None, None, None, None]" ?d] lp
    by (simp add: unat_times5[OF b])
  have s3: "store_u8 (?P @ (Some 0xe8 # map Some (le_bytes ?d)) @ [None, None, None, None]) (unat (argc * 5 + 5)) 0x83
     = Inr (?P @ (Some 0xe8 # map Some (le_bytes ?d) @ [Some 0x83]) @ [None, None, None])"
    using store_u8_at[of ?P "Some 0xe8 # map Some (le_bytes ?d)" None "[None, None, None]" "0x83"] lp
    by (simp add: unat_times5[OF b] length_le_bytes)
  have s4: "store_u8 (?P @ (Some 0xe8 # map Some (le_bytes ?d) @ [Some 0x83]) @ [None, None, None]) (unat (argc * 5 + 6)) 0xc4
     = Inr (?P @ (Some 0xe8 # map Some (le_bytes ?d) @ [Some 0x83, Some 0xc4]) @ [None, None])"
    using store_u8_at[of ?P "Some 0xe8 # map Some (le_bytes ?d) @ [Some 0x83]" None "[None, None]" "0xc4"] lp
    by (simp add: unat_times5[OF b] length_le_bytes)
  have s5: "store_u8 (?P @ (Some 0xe8 # map Some (le_bytes ?d) @ [Some 0x83, Some 0xc4]) @ [None, None]) (unat (argc * 5 + 7)) (ucast (4 * argc))
     = Inr (?P @ (Some 0xe8 # map Some (le_bytes ?d) @ [Some 0x83, Some 0xc4, Some (ucast (4 * argc))]) @ [None])"
    using store_u8_at[of ?P "Some 0xe8 # map Some (le_bytes ?d) @ [Some 0x83, Some 0xc4]" None "[None]" "ucast (4 * argc)"] lp
    by (simp add: unat_times5[OF b] length_le_bytes)
  have s6: "store_u8 (?P @ (Some 0xe8 # map Some (le_bytes ?d) @ [Some 0x83, Some 0xc4, Some (ucast (4 * argc))]) @ [None]) (unat (argc * 5 + 8)) 0xc3
     = Inr (map Some (caller_layout function_address caller_address argc args))"
    using store_u8_at[of ?P "Some 0xe8 # map Some (le_bytes ?d) @ [Some 0x83, Some 0xc4, Some (ucast (4 * argc))]" None "[]" "0xc3"] lp
    by (simp add: unat_times5[OF b] length_le_bytes caller_layout_def)
  show ?thesis
    unfolding write_caller_def
    by (simp only: option.case sum.case p s1 s2 s3 s4 s5 s6)
qed

subsection \<open>When the assembly succeeds\<close>

lemma store_u8_length: "store_u8 buf idx v = Inr b \<Longrightarrow> length b = length buf"
  by (auto simp add: store_u8_def split: if_splits)

lemma store_u32_length: "store_u32 buf idx w = Inr b \<Longrightarrow> length b = length buf"
  by (auto simp add: store_u32_def split: if_splits)

lemma push_args_Inr_bounds:
  "push_args argc args i buf = Inr b \<Longrightarrow> i < unat argc \<Longrightarrow>
   unat argc - Suc i < length args \<and> (unat argc - 1) * 5 \<le> INT_MAX"
proof (induction argc args i buf rule: push_args.induct)
  case (1 argc args i caller_bytes)
  from "1.prems" obtain b1 a b2 where
    ov: "\<not> INT_MAX < i * 5"
    and s1: "store_u8 caller_bytes (i * 5) 0x68 = Inr b1"
    and ld: "load_arg args (unat (argc - of_nat i - 1)) = Inr a"
    and s2: "store_u32 b1 (i * 5 + 1) a = Inr b2"
    and rec: "push_args argc args (i + 1) b2 = Inr b"
    by (subst (asm) push_args.simps) (auto split: if_splits sum.splits)
  have idx: "unat argc - Suc i < length args"
    using ld "1.prems"(2) by (auto simp add: load_arg_def unat_arg_index split: if_splits)
  show ?case
  proof (cases "i + 1 < unat argc")
    case True
    then have "(unat argc - 1) * 5 \<le> INT_MAX"
      using "1.IH"[OF "1.prems"(2) ov s1 ld s2 rec] by simp
    with idx show ?thesis by simp
  next
    case False
    with "1.prems"(2) have "unat argc - 1 = i" by simp
    with ov idx show ?thesis by simp
  qed
qed

lemma write_caller_Inr_bounds:
  assumes "write_caller block function_address caller_address argc args = Inr stub"
  shows "unat argc \<le> length args \<and> unat argc \<le> 429496730"
proof (cases "unat argc = 0")
  case True
  then show ?thesis by simp
next
  case False
  from assms obtain caller_bytes b where "push_args argc args 0 caller_bytes = Inr b"
    by (auto simp add: write_caller_def split: option.splits sum.splits)
  from push_args_Inr_bounds[OF this] False
  have "unat argc - Suc 0 < length args" and "(unat argc - 1) * 5 \<le> 2147483647"
    by (simp_all add: INT_MAX_def)
  then show ?thesis by arith
qed

lemma write_caller_Inr_iff:
  "write_caller (Some (malloc_block (caller_size argc))) function_address caller_address argc args = Inr stub
   \<longleftrightarrow> unat argc \<le> length args \<and> unat argc \<le> 429496730
       \<and> stub = map Some (caller_layout function_address caller_address argc args)"
  using write_caller_Inr_bounds write_caller_layout by (metis sum.inject(2))

lemma pushes_split:
  "i < m \<Longrightarrow> \<exists>ys. pushes argc args m =
      pushes argc args i @ 0x68 # le_bytes (args ! (unat argc - Suc i)) @ ys"
proof (induction m)
  case 0
  then show ?case by simp
next
  case (Suc m)
  show ?case
  proof (cases "i = m")
    case True
    then show ?thesis by (simp add: push_bytes_def)
  next
    case False
    with Suc.prems have "i < m" by simp
    from Suc.IH[OF this] obtain ys where
      "pushes argc args m = pushes argc args i @ 0x68 # le_bytes (args ! (unat argc - Suc i)) @ ys"
      by blast
    then show ?thesis by simp
  qed
qed

lemma fetch_u32_at:
  "fetch_u32 (map Some (xs @ le_bytes w @ ys)) (length xs) = Some w"
proof -
  have "word_of_le_bytes (le_bytes w ! 0) (le_bytes w ! 1) (le_bytes w ! 2) (le_bytes w ! 3) = w"
    by (rule le_bytes_roundtrip)
  then show ?thesis
    by (simp add: fetch_u32_def nth_append le_bytes_def)
qed

lemma layout_push:
  assumes "i < unat argc"
  shows "map Some (caller_layout fa la argc args) ! (5 * i) = Some 0x68"
    and "fetch_u32 (map Some (caller_layout fa la argc args)) (5 * i + 1) = Some (args ! (unat argc - 1 - i))"
proof -
  from pushes_split[OF assms] obtain ys where
    ys: "pushes argc args (unat argc) = pushes argc args i @ 0x68 # le_bytes (args ! (unat argc - Suc i)) @ ys"
    by blast
  let ?tail = "ys @ 0xe8 # le_bytes (fa - (la + argc * 5) - 5) @ [0x83, 0xc4, ucast (4 * argc), 0xc3]"
  have L: "caller_layout fa la argc args =
      (pushes argc args i @ [0x68]) @ le_bytes (args ! (unat argc - Suc i)) @ ?tail"
    by (simp add: caller_layout_def ys)
  have len: "length (pushes argc args i @ [0x68]) = 5 * i + 1"
    by (simp add: length_pushes)
  show "map Some (caller_layout fa la argc args) ! (5 * i) = Some 0x68"
    by (simp add: L nth_append length_pushes)
  show "fetch_u32 (map Some (caller_layout fa la argc args)) (5 * i + 1) = Some (args ! (unat argc - 1 - i))"
    using fetch_u32_at[of "pushes argc args i @ [0x68]" "args ! (unat argc - Suc i)" ?tail]
    unfolding L len by simp
qed

lemma layout_call:
  shows "map Some (caller_layout fa la argc args) ! (5 * unat argc) = Some 0xe8"
    and "fetch_u32 (map Some (caller_layout fa la argc args)) (5 * unat argc + 1) = Some (fa - (la + argc * 5) - 5)"
proof -
  let ?tail = "[0x83, 0xc4, ucast (4 * argc), 0xc3] :: byte list"
  have L: "caller_layout fa la argc args =
      (pushes argc args (unat argc) @ [0xe8]) @ le_bytes (fa - (la + argc * 5) - 5) @ ?tail"
    by (simp add: caller_layout_def)
  have len: "length (pushes argc args (unat argc) @ [0xe8]) = 5 * unat argc + 1"
    by (simp add: length_pushes)
  show "map Some (caller_layout fa la argc args) ! (5 * unat argc) = Some 0xe8"
    by (simp add: L nth_append length_pushes)
  show "fetch_u32 (map Some (caller_layout fa la argc args)) (5 * unat argc + 1) = Some (fa - (la + argc * 5) - 5)"
    using fetch_u32_at[of "pushes argc args (unat argc) @ [0xe8]" "fa - (la + argc * 5) - 5" ?tail]
    unfolding L len by simp
qed

lemma layout_tail:
  shows "map Some (caller_layout fa la argc args) ! (5 * unat argc + 5) = Some 0x83"
    and "map Some (caller_layout fa la argc args) ! (5 * unat argc + 6) = Some 0xc4"
    and "map Some (caller_layout fa la argc args) ! (5 * unat argc + 7) = Some (ucast (4 * argc))"
    and "map Some (caller_layout fa la argc args) ! (5 * unat argc + 8) = Some 0xc3"
    and "length (caller_layout fa la argc args) = 5 * unat argc + 9"
  by (simp_all add: caller_layout_def nth_append length_pushes length_le_bytes)

lemma push_args_length:
  "push_args argc args i buf = Inr b \<Longrightarrow> length b = length buf"
proof (induction argc args i buf rule: push_args.induct)
  case (1 argc args i caller_bytes)
  show ?case
  proof (cases "i < unat argc")
    case False
    with "1.prems" show ?thesis by (subst (asm) push_args.simps) simp
  next
    case True
    with "1.prems" obtain b1 a b2 where
      ov: "\<not> INT_MAX < i * 5"
      and s1: "store_u8 caller_bytes (i * 5) 0x68 = Inr b1"
      and ld: "load_arg args (unat (argc - of_nat i - 1)) = Inr a"
      and s2: "store_u32 b1 (i * 5 + 1) a = Inr b2"
      and rec: "push_args argc args (i + 1) b2 = Inr b"
      by (subst (asm) push_args.simps) (auto split: if_splits sum.splits)
    from "1.IH"[OF True ov s1 ld s2 rec] store_u32_length[OF s2] store_u8_length[OF s1]
    show ?thesis by simp
  qed
qed

lemma write_caller_length:
  assumes "write_caller (Some buf) fa la argc args = Inr stub"
  shows "length stub = length buf"
proof -
  from assms obtain b1 b2 b3 b4 b5 b6 where
    "push_args argc args 0 buf = Inr b1"
    "store_u8 b1 (unat (argc * 5)) 0xe8 = Inr b2"
    "store_u32 b2 (unat (argc * 5) + 1) (fa - (la + argc * 5) - 5) = Inr b3"
    "store_u8 b3 (unat (argc * 5 + 5)) 0x83 = Inr b4"
    "store_u8 b4 (unat (argc * 5 + 6)) 0xc4 = Inr b5"
    "store_u8 b5 (unat (argc * 5 + 7)) (ucast (4 * argc)) = Inr b6"
    "store_u8 b6 (unat (argc * 5 + 8)) 0xc3 = Inr stub"
    by (auto simp add: write_caller_def split: sum.splits)
  then show ?thesis
    by (simp add: push_args_length store_u8_length store_u32_length)
qed

lemma stack_adjustment_byte:
  assumes "write_caller (Some (malloc_block (caller_size argc))) function_address caller_address argc args
             = Inr stub"
  shows "stub ! (5 * unat argc + 7) = Some (ucast (4 * argc)) \<and>
         unat (ucast (4 * argc) :: byte) = (4 * unat argc) mod 256"
proof -
  from assms have "stub = map Some (caller_layout function_address caller_address argc args)"
    by (simp add: write_caller_Inr_iff)
  moreover have "unat (ucast (4 * argc) :: byte) = (4 * unat argc) mod 256"
    by (simp add: unsigned_ucast_eq take_bit_eq_mod unat_word_ariths mod_mod_cancel)
  ultimately show ?thesis
    using layout_tail(3)[of function_address caller_address argc args] by simp
qed

lemma uint_displacement:
  "uint (fa - (la + 5 * argc) - 5 :: dword) = (uint fa - (uint la + 5 * int (unat argc)) - 5) mod 2 ^ 32"
  by (simp add: uint_word_ariths mod_simps)





text \<open>
  \<^verbatim>\<open>caller_size\<close> wraps from 858993458 arguments on, an argument array of more than
  3 GiB: there the block is too small for the first push.
\<close>

lemma caller_size_wraps: "caller_size 858993458 = 3"
  by (simp add: caller_size_def)

lemma undersized_block_is_overrun:
  "write_caller (Some (malloc_block (caller_size 858993458))) 0x401000 0x20000 858993458
     (replicate 858993458 0) = Inl WriteOutOfBounds"
  by (simp add: caller_size_def malloc_block_def write_caller_def push_args.simps
      store_u8_def store_u32_def load_arg_def INT_MAX_def)

section \<open>The waiting loop\<close>

lemma wait_loop_first:
  "(\<forall>j<d. os_WaitForSingleObject os h (k + j) \<noteq> 0) \<Longrightarrow>
   os_WaitForSingleObject os h (k + d) = 0 \<Longrightarrow>
   wait_loop os h k = Some (Suc (k + d))"
proof (induction d arbitrary: k)
  case 0
  then show ?case by (subst wait_loop.simps) simp
next
  case (Suc d)
  from Suc.prems(1) have nz: "os_WaitForSingleObject os h k \<noteq> 0"
    by (metis add.right_neutral zero_less_Suc)
  have "\<forall>j<d. os_WaitForSingleObject os h (Suc k + j) \<noteq> 0"
    using Suc.prems(1) by (metis Suc_less_eq add_Suc_right add_Suc)
  moreover have "os_WaitForSingleObject os h (Suc k + d) = 0"
    using Suc.prems(2) by simp
  ultimately have "wait_loop os h (Suc k) = Some (Suc (Suc k + d))"
    by (rule Suc.IH)
  then show ?case using nz by (subst wait_loop.simps) simp
qed

lemma wait_loop_Some:
  "wait_loop os h k = Some n \<Longrightarrow>
   k < n \<and> os_WaitForSingleObject os h (n - 1) = 0 \<and>
   (\<forall>j. k \<le> j \<and> j < n - 1 \<longrightarrow> os_WaitForSingleObject os h j \<noteq> 0)"
proof (induction rule: wait_loop.raw_induct[rotated 1, consumes 1, case_names step])
  case (step wl os h k n)
  note 1 = step
  show ?case
  proof (cases "os_WaitForSingleObject os h k \<noteq> 0")
    case True
    with 1(2) have "wl os h (Suc k) = Some n" by simp
    from 1(1)[OF this] have n: "Suc k < n" "os_WaitForSingleObject os h (n - 1) = 0"
      and rest: "\<And>j. Suc k \<le> j \<Longrightarrow> j < n - 1 \<Longrightarrow> os_WaitForSingleObject os h j \<noteq> 0"
      by simp_all
    have "os_WaitForSingleObject os h j \<noteq> 0" if "k \<le> j" "j < n - 1" for j
    proof (cases "j = k")
      case True
      with \<open>os_WaitForSingleObject os h k \<noteq> 0\<close> show ?thesis by simp
    next
      case False
      with that have "Suc k \<le> j" by simp
      then show ?thesis using that(2) by (rule rest)
    qed
    with n show ?thesis by simp
  next
    case False
    with 1(2) show ?thesis by auto
  qed
qed

lemma wait_loop_never:
  assumes "\<forall>j\<ge>k. os_WaitForSingleObject os h j \<noteq> 0"
  shows "wait_loop os h k = None"
proof (cases "wait_loop os h k")
  case None
  then show ?thesis .
next
  case (Some n)
  from wait_loop_Some[OF this] have "k < n" and "os_WaitForSingleObject os h (n - 1) = 0"
    by simp_all
  moreover from \<open>k < n\<close> have "k \<le> n - 1" by simp
  ultimately show ?thesis using assms by blast
qed

lemma wait_loop_terminates:
  assumes "\<exists>j. os_WaitForSingleObject os h j = 0"
  shows "\<exists>n. wait_loop os h 0 = Some n"
proof -
  define d where "d = (LEAST j. os_WaitForSingleObject os h j = 0)"
  have z: "os_WaitForSingleObject os h d = 0"
    unfolding d_def using assms by (rule LeastI_ex)
  have "\<forall>j<d. os_WaitForSingleObject os h j \<noteq> 0"
    unfolding d_def by (auto dest: not_less_Least)
  then have "wait_loop os h 0 = Some (Suc (0 + d))"
    using z by (intro wait_loop_first) simp_all
  then show ?thesis by blast
qed

section \<open>The shape of a run\<close>

lemma call_undefined:
  assumes "write_caller (if os_malloc os (caller_size argc) then Some (malloc_block (caller_size argc)) else None)
             fa (caller_address_of os pid argc) argc args = Inl u"
  shows "call_external_cdecl_function os pid fa argc args =
     (Undefined u,
      [OpenProcess pid (process_handle_of os pid),
       VirtualAllocEx (process_handle_of os pid) (caller_size argc) (caller_address_of os pid argc),
       Malloc (caller_size argc) (os_malloc os (caller_size argc))])"
  using assms
  by (simp add: call_external_cdecl_function_def Let_def process_handle_of_def caller_address_of_def)

lemma call_hangs:
  assumes "write_caller (if os_malloc os (caller_size argc) then Some (malloc_block (caller_size argc)) else None)
             fa (caller_address_of os pid argc) argc args = Inr stub"
    and "wait_loop os (thread_handle_of os pid argc) 0 = None"
  shows "call_external_cdecl_function os pid fa argc args =
     (Hangs,
      [OpenProcess pid (process_handle_of os pid),
       VirtualAllocEx (process_handle_of os pid) (caller_size argc) (caller_address_of os pid argc),
       Malloc (caller_size argc) (os_malloc os (caller_size argc)),
       WriteProcessMemory (process_handle_of os pid) (caller_address_of os pid argc) stub (caller_size argc),
       CreateRemoteThread (process_handle_of os pid) (caller_address_of os pid argc) (thread_handle_of os pid argc)])"
  using assms
  by (simp add: call_external_cdecl_function_def Let_def process_handle_of_def caller_address_of_def
      thread_handle_of_def)

lemma call_returns:
  assumes "write_caller (if os_malloc os (caller_size argc) then Some (malloc_block (caller_size argc)) else None)
             fa (caller_address_of os pid argc) argc args = Inr stub"
    and "wait_loop os (thread_handle_of os pid argc) 0 = Some n"
  shows "call_external_cdecl_function os pid fa argc args =
     (Returned (case os_GetExitCodeThread os (thread_handle_of os pid argc) of None \<Rightarrow> 0 | Some v \<Rightarrow> v),
      [OpenProcess pid (process_handle_of os pid),
       VirtualAllocEx (process_handle_of os pid) (caller_size argc) (caller_address_of os pid argc),
       Malloc (caller_size argc) (os_malloc os (caller_size argc)),
       WriteProcessMemory (process_handle_of os pid) (caller_address_of os pid argc) stub (caller_size argc),
       CreateRemoteThread (process_handle_of os pid) (caller_address_of os pid argc) (thread_handle_of os pid argc)]
      @ wait_events os (thread_handle_of os pid argc) n
      @ [GetExitCodeThread (thread_handle_of os pid argc) (os_GetExitCodeThread os (thread_handle_of os pid argc)),
         CloseHandle (thread_handle_of os pid argc),
         Free,
         VirtualFreeEx (process_handle_of os pid) (caller_address_of os pid argc) (caller_size argc) MEM_FREE,
         CloseHandle (process_handle_of os pid)])"
  using assms
  by (simp add: call_external_cdecl_function_def Let_def process_handle_of_def caller_address_of_def
      thread_handle_of_def)

lemma malloc_needed:
  assumes "write_caller (if ok then Some b else None) fa la argc args = Inr stub"
  shows "ok"
  using assms by (cases ok) (simp_all add: write_caller_def)

lemma filter_wait_events [simp]:
  "filter is_wait (wait_events os h n) = wait_events os h n"
  "filter is_release (wait_events os h n) = []"
  "filter is_acquired (wait_events os h n) = []"
  "filter is_remote_allocation (wait_events os h n) = []"
  by (simp_all add: wait_events_def filter_map comp_def)

section \<open>The entry point\<close>

lemma parse_arguments_faults:
  assumes "4 \<le> length argv" and "length argv - 4 < unat n"
  shows "i \<le> length argv - 4 \<Longrightarrow> \<exists>u. parse_arguments libc argv n allocated i acc = Inl u"
proof (induction "length argv - 4 - i" arbitrary: i acc)
  case 0
  then have i: "length argv = 4 + i" using assms(1) by simp
  then have "i < unat n" using assms(2) by simp
  then show ?case using i by (subst parse_arguments.simps) simp
next
  case (Suc d)
  then have lt: "i < unat n" and more: "Suc i \<le> length argv - 4" and d: "d = length argv - 4 - Suc i"
    using assms(2) by simp_all
  from Suc.hyps(1)[OF d more] obtain u where
    "parse_arguments libc argv n allocated (i + 1)
       (acc @ [word_of_int (libc_atoi libc (argv ! (4 + i)))]) = Inl u"
    by auto
  then show ?case using lt by (subst parse_arguments.simps) auto
qed

lemma parse_arguments_reads:
  assumes "4 \<le> length argv" and "unat n \<le> length argv - 4" and "unat n < 2 ^ 30"
  shows "i \<le> unat n \<Longrightarrow>
     parse_arguments libc argv n True i acc =
       Inr (acc @ map (\<lambda>s. word_of_int (libc_atoi libc s)) (take (unat n - i) (drop (4 + i) argv)))"
proof (induction "unat n - i" arbitrary: i acc)
  case 0
  then have "\<not> i < unat n" by simp
  then show ?case using 0 by (subst parse_arguments.simps) simp
next
  case (Suc d)
  then have lt: "i < unat n" and d: "d = unat n - Suc i" and le: "Suc i \<le> unat n" by simp_all
  have cap: "unat (4 * n) div 4 = unat n"
    using assms(3) by (simp add: unat_word_ariths)
  have ov: "\<not> INT_MAX < 4 + i" using lt assms(3) by (simp add: INT_MAX_def)
  have inside: "4 + i < length argv" using lt assms(1,2) by simp
  have split: "take (unat n - i) (drop (4 + i) argv) =
      argv ! (4 + i) # take (unat n - Suc i) (drop (4 + Suc i) argv)"
  proof -
    have "unat n - i = Suc (unat n - Suc i)" using lt by simp
    moreover have "drop (4 + i) argv = argv ! (4 + i) # drop (Suc (4 + i)) argv"
      using inside by (rule Cons_nth_drop_Suc[symmetric])
    then have "drop (4 + i) argv = argv ! (4 + i) # drop (4 + Suc i) argv"
      by simp
    ultimately show ?thesis by simp
  qed
  have "parse_arguments libc argv n True i acc =
      parse_arguments libc argv n True (i + 1) (acc @ [word_of_int (libc_atoi libc (argv ! (4 + i)))])"
    using lt ov inside cap by (subst parse_arguments.simps) simp
  also have "\<dots> = Inr ((acc @ [word_of_int (libc_atoi libc (argv ! (4 + i)))]) @
      map (\<lambda>s. word_of_int (libc_atoi libc s)) (take (unat n - Suc i) (drop (4 + Suc i) argv)))"
    using Suc.hyps(1)[OF d le] by simp
  finally show ?case by (simp add: split)
qed

lemma first_three_calls:
  "take 3 (snd (call_external_cdecl_function os process_id function_address argc args)) =
     [OpenProcess process_id (process_handle_of os process_id),
      VirtualAllocEx (process_handle_of os process_id) (caller_size argc)
        (caller_address_of os process_id argc),
      Malloc (caller_size argc) (os_malloc os (caller_size argc))]"
proof (cases "write_caller (if os_malloc os (caller_size argc) then Some (malloc_block (caller_size argc)) else None)
             function_address (caller_address_of os process_id argc) argc args")
  case (Inl u)
  then show ?thesis by (simp add: call_undefined)
next
  case (Inr stub)
  show ?thesis
  proof (cases "wait_loop os (thread_handle_of os process_id argc) 0")
    case None
    with Inr show ?thesis by (simp add: call_hangs)
  next
    case (Some n)
    with Inr show ?thesis by (simp add: call_returns)
  qed
qed

lemma main_calls:
  assumes "4 \<le> length argv"
    and "unat (arguments_number_of libc argv) \<le> length argv - 4"
    and "unat (arguments_number_of libc argv) < 2 ^ 30"
    and "os_malloc os (4 * arguments_number_of libc argv)"
  shows "main libc os argv =
     (Called (fst (call_external_cdecl_function os (process_id_of libc argv)
                (libc_strtoul libc (argv ! 2)) (arguments_number_of libc argv) (arguments_of libc argv))),
      snd (call_external_cdecl_function os (process_id_of libc argv)
                (libc_strtoul libc (argv ! 2)) (arguments_number_of libc argv) (arguments_of libc argv)))"
proof -
  have "parse_arguments libc argv (arguments_number_of libc argv) True 0 [] =
      Inr (arguments_of libc argv)"
    using parse_arguments_reads[OF assms(1-3), of 0 libc "[]"] by (simp add: arguments_of_def)
  then show ?thesis
    using assms(1,4)
    unfolding main_def Let_def arguments_of_def arguments_number_of_def process_id_of_def
    by (simp split: prod.splits)
qed

section \<open>The claims\<close>

subsection \<open>C1: the length of the stub\<close>

text \<open>
  C1: for every argument count \<open>N\<close> the assembled stub is exactly \<open>5 * N + 9\<close> bytes
  long (5 bytes for each push, 5 for the call, 3 for the stack adjustment, 1 for the
  return). The assembly produces the stub whenever \<^verbatim>\<open>args\<close> holds \<open>N\<close> entries and
  \<open>N \<le> 429496730\<close>, the counts for which \<^verbatim>\<open>i * 5\<close> stays an \<^verbatim>\<open>int\<close>; and whatever
  the count, a stub that is assembled has that length.
\<close>

theorem stub_length:
  "(unat argc \<le> length args \<and> unat argc \<le> 429496730 \<longrightarrow>
      (\<exists>stub. write_caller (Some (malloc_block (caller_size argc))) function_address caller_address
                 argc args = Inr stub \<and>
              length stub = 5 * unat argc + 9)) \<and>
   (\<forall>stub. write_caller (Some (malloc_block (caller_size argc))) function_address caller_address
              argc args = Inr stub \<longrightarrow>
            length stub = 5 * unat argc + 9)"
proof -
  have any: "length stub = 5 * unat argc + 9"
    if "write_caller (Some (malloc_block (caller_size argc))) function_address caller_address
          argc args = Inr stub" for stub
  proof -
    from that have "stub = map Some (caller_layout function_address caller_address argc args)"
      by (simp add: write_caller_Inr_iff)
    then show ?thesis by (simp add: layout_tail(5))
  qed
  have "\<exists>stub. write_caller (Some (malloc_block (caller_size argc))) function_address caller_address
                 argc args = Inr stub \<and> length stub = 5 * unat argc + 9"
    if "unat argc \<le> length args \<and> unat argc \<le> 429496730"
    using that any write_caller_layout[of argc args function_address caller_address] by auto
  with any show ?thesis by blast
qed

text \<open>The theorem at 0, 1, 4 and 16 arguments: 9, 14, 29 and 89 bytes.\<close>

theorem stub_length_witness:
  "(\<exists>stub. write_caller (Some (malloc_block (caller_size 0))) 0x401000 0x20000 0 [] = Inr stub \<and>
           length stub = 9) \<and>
   (\<exists>stub. write_caller (Some (malloc_block (caller_size 1))) 0x401000 0x20000 1 [7] = Inr stub \<and>
           length stub = 14) \<and>
   (\<exists>stub. write_caller (Some (malloc_block (caller_size 4))) 0x401000 0x20000 4 [7, 9, 11, 13]
             = Inr stub \<and> length stub = 29) \<and>
   (\<exists>stub. write_caller (Some (malloc_block (caller_size 16))) 0x401000 0x20000 16
             [1, 2, 3, 4, 5, 6, 7, 8, 9, 10, 11, 12, 13, 14, 15, 16] = Inr stub \<and>
           length stub = 89)"
  using stub_length[of 0 "[]" "0x401000" "0x20000"]
    stub_length[of 1 "[7]" "0x401000" "0x20000"]
    stub_length[of 4 "[7, 9, 11, 13]" "0x401000" "0x20000"]
    stub_length[of 16 "[1, 2, 3, 4, 5, 6, 7, 8, 9, 10, 11, 12, 13, 14, 15, 16]" "0x401000" "0x20000"]
  by simp

subsection \<open>C2: the pushes\<close>

text \<open>
  C2: for an argument list of length \<open>N\<close> the assembly produces a stub in which, for
  each \<open>i\<close> below \<open>N\<close>, the byte at offset \<open>5 * i\<close> is the push opcode 0x68 and the
  32-bit field at offset \<open>5 * i + 1\<close> is the value of argument \<open>N - 1 - i\<close>: the last
  argument is pushed first, the first argument last.
\<close>

theorem pushes_in_reverse_order:
  assumes "unat argc \<le> length args" and "unat argc \<le> 429496730" and "i < unat argc"
  shows "\<exists>stub. write_caller (Some (malloc_block (caller_size argc))) function_address caller_address
                  argc args = Inr stub \<and>
               stub ! (5 * i) = Some 0x68 \<and>
               fetch_u32 stub (5 * i + 1) = Some (args ! (unat argc - 1 - i))"
  using write_caller_layout[OF assms(1,2), of function_address caller_address]
    layout_push[OF assms(3), of function_address caller_address args]
  by simp

text \<open>
  The theorem at the arguments 7 and 9: the first push carries 9, the last argument,
  and the second push carries 7.
\<close>

theorem pushes_in_reverse_order_witness:
  "write_caller (Some (malloc_block (caller_size 2))) 0x401000 0x20000 2 [7, 9] =
     Inr (map Some [0x68, 9, 0, 0, 0, 0x68, 7, 0, 0, 0, 0xe8, 0xf1, 0x0f, 0x3e, 0, 0x83, 0xc4, 8, 0xc3]) \<and>
   map Some ([0x68, 9, 0, 0, 0, 0x68, 7, 0, 0, 0, 0xe8, 0xf1, 0x0f, 0x3e, 0, 0x83, 0xc4, 8, 0xc3] :: byte list) ! (5 * 0) = Some 0x68 \<and>
   fetch_u32 (map Some [0x68, 9, 0, 0, 0, 0x68, 7, 0, 0, 0, 0xe8, 0xf1, 0x0f, 0x3e, 0, 0x83, 0xc4, 8, 0xc3]) (5 * 0 + 1)
     = Some 9 \<and>
   map Some ([0x68, 9, 0, 0, 0, 0x68, 7, 0, 0, 0, 0xe8, 0xf1, 0x0f, 0x3e, 0, 0x83, 0xc4, 8, 0xc3] :: byte list) ! (5 * 1) = Some 0x68 \<and>
   fetch_u32 (map Some [0x68, 9, 0, 0, 0, 0x68, 7, 0, 0, 0, 0xe8, 0xf1, 0x0f, 0x3e, 0, 0x83, 0xc4, 8, 0xc3]) (5 * 1 + 1)
     = Some 7"
proof -
  have e: "write_caller (Some (malloc_block (caller_size 2))) 0x401000 0x20000 2 [7, 9] =
     Inr (map Some [0x68, 9, 0, 0, 0, 0x68, 7, 0, 0, 0, 0xe8, 0xf1, 0x0f, 0x3e, 0, 0x83, 0xc4, 8, 0xc3])"
    by code_simp
  have a: "unat (2 :: dword) \<le> length [7, 9 :: dword]" "unat (2 :: dword) \<le> 429496730"
    "0 < unat (2 :: dword)" "1 < unat (2 :: dword)"
    by simp_all
  from pushes_in_reverse_order[OF a(1,2,3), of "0x401000" "0x20000"]
    pushes_in_reverse_order[OF a(1,2,4), of "0x401000" "0x20000"] e
  show ?thesis by simp
qed

subsection \<open>C3: the displacement of the call\<close>

text \<open>
  C3: the assembly produces a stub in which the byte at offset \<open>5 * N\<close> is the call
  opcode 0xE8 and the 32-bit field after it is
  \<open>function_address - (caller_address + 5 * N) - 5\<close> in 32-bit arithmetic, that is
  modulo \<open>2 ^ 32\<close>: the target relative to the address that follows the call
  instruction.
\<close>

theorem call_displacement:
  assumes "unat argc \<le> length args" and "unat argc \<le> 429496730"
  shows "\<exists>stub. write_caller (Some (malloc_block (caller_size argc))) function_address caller_address
                  argc args = Inr stub \<and>
               stub ! (5 * unat argc) = Some 0xe8 \<and>
               fetch_u32 stub (5 * unat argc + 1) =
                 Some (function_address - (caller_address + 5 * argc) - 5) \<and>
               uint (function_address - (caller_address + 5 * argc) - 5) =
                 (uint function_address - (uint caller_address + 5 * int (unat argc)) - 5) mod 2 ^ 32"
  using write_caller_layout[OF assms, of function_address caller_address]
    layout_call[of function_address caller_address argc args]
    uint_displacement[of function_address caller_address argc]
  by (simp add: mult.commute)

text \<open>
  The theorem for a function at 0x401000 and a stub loaded at 0x20000 with two
  arguments: the field holds 0x3E0FF1.
\<close>

theorem call_displacement_witness:
  "write_caller (Some (malloc_block (caller_size 2))) 0x401000 0x20000 2 [7, 9] =
     Inr (map Some [0x68, 9, 0, 0, 0, 0x68, 7, 0, 0, 0, 0xe8, 0xf1, 0x0f, 0x3e, 0, 0x83, 0xc4, 8, 0xc3]) \<and>
   map Some ([0x68, 9, 0, 0, 0, 0x68, 7, 0, 0, 0, 0xe8, 0xf1, 0x0f, 0x3e, 0, 0x83, 0xc4, 8, 0xc3] :: byte list)
     ! (5 * unat (2 :: dword)) = Some 0xe8 \<and>
   fetch_u32 (map Some [0x68, 9, 0, 0, 0, 0x68, 7, 0, 0, 0, 0xe8, 0xf1, 0x0f, 0x3e, 0, 0x83, 0xc4, 8, 0xc3])
     (5 * unat (2 :: dword) + 1) = Some (0x401000 - (0x20000 + 5 * 2) - 5) \<and>
   (0x401000 - (0x20000 + 5 * 2) - 5 :: dword) = 0x3e0ff1"
proof -
  have e: "write_caller (Some (malloc_block (caller_size 2))) 0x401000 0x20000 2 [7, 9] =
     Inr (map Some [0x68, 9, 0, 0, 0, 0x68, 7, 0, 0, 0, 0xe8, 0xf1, 0x0f, 0x3e, 0, 0x83, 0xc4, 8, 0xc3])"
    by code_simp
  have a: "unat (2 :: dword) \<le> length [7, 9 :: dword]" "unat (2 :: dword) \<le> 429496730"
    by simp_all
  from call_displacement[OF a, of "0x401000" "0x20000"] e show ?thesis by simp
qed

subsection \<open>C4: the stack adjustment\<close>

text \<open>
  C4 at 64 arguments: the source stores \<^verbatim>\<open>4 * argc\<close> in one byte, the immediate of
  \<^verbatim>\<open>83 C4 XX\<close>, so the byte at offset \<open>5 * 64 + 7\<close> is 0 where the claim, and the
  header comment \<^verbatim>\<open>XX = 4 * argc\<close>, say 256. The lemma \<open>stack_adjustment_byte\<close> gives
  the byte for every count: \<open>4 * N mod 256\<close>.
\<close>

theorem stack_adjustment_truncated:
  "stub_byte (write_caller (Some (malloc_block (caller_size 64))) 0x401000 0x20000 64 (replicate 64 0))
     (5 * 64 + 7) = Some 0"
proof -
  have "write_caller (Some (malloc_block (caller_size 64))) 0x401000 0x20000 64 (replicate 64 0) =
      Inr (map Some (caller_layout 0x401000 0x20000 64 (replicate 64 0)))"
    by (rule write_caller_layout) simp_all
  then show ?thesis
    using layout_tail(3,5)[of "0x401000" "0x20000" 64 "replicate 64 0"]
    by (simp add: stub_byte_def)
qed

subsection \<open>C5: a process that cannot be opened\<close>

text \<open>
  C5, as stated, for a process identifier that names no process: the function reports
  no error. It passes the null handle to \<^verbatim>\<open>VirtualAllocEx\<close>, assembles the stub, passes
  the null handle to \<^verbatim>\<open>WriteProcessMemory\<close> and \<^verbatim>\<open>CreateRemoteThread\<close>, and then
  polls the null thread handle for ever.
\<close>

theorem no_process_counterexample:
  "os_OpenProcess os_no_process 4242 = 0 \<and>
   call_external_cdecl_function os_no_process 4242 0x401000 0 [] =
     (Hangs,
      [OpenProcess 4242 0, VirtualAllocEx 0 9 0, Malloc 9 True,
       WriteProcessMemory 0 0 (map Some [0xe8, 0xfb, 0x0f, 0x40, 0, 0x83, 0xc4, 0, 0xc3]) 9,
       CreateRemoteThread 0 0 0])"
proof -
  have h: "process_handle_of os_no_process 4242 = 0" "caller_address_of os_no_process 4242 0 = 0"
    "thread_handle_of os_no_process 4242 0 = 0" "caller_size 0 = 9" "os_malloc os_no_process 9"
    by (simp_all add: process_handle_of_def caller_address_of_def thread_handle_of_def os_no_process_def
        caller_size_def)
  have e: "write_caller (Some (malloc_block 9)) 0x401000 0 0 [] =
      Inr (map Some [0xe8, 0xfb, 0x0f, 0x40, 0, 0x83, 0xc4, 0, 0xc3])"
    by code_simp
  have w: "wait_loop os_no_process 0 0 = None"
    by (rule wait_loop_never) (simp add: os_no_process_def)
  show ?thesis
    using call_hangs[of os_no_process 0 "0x401000" 4242 "[]" "map Some [0xe8, 0xfb, 0x0f, 0x40, 0, 0x83, 0xc4, 0, 0xc3]"]
    unfolding h using e w h(5) by (simp add: os_no_process_def)
qed

text \<open>
  C5, amended: when \<^verbatim>\<open>OpenProcess\<close> fails, the function does not detect it and has no
  error to report. Its next call is \<^verbatim>\<open>VirtualAllocEx\<close> with the null handle; when the
  system refuses the calls made with null handles (\<^verbatim>\<open>VirtualAllocEx\<close> and
  \<^verbatim>\<open>CreateRemoteThread\<close> return \<^verbatim>\<open>NULL\<close>, no wait on the null handle returns 0), no
  remote block is obtained and the function does not return.
\<close>

theorem open_failure_is_not_reported:
  assumes "os_OpenProcess os process_id = 0"
    and "os_VirtualAllocEx os 0 (caller_size argc) = 0"
    and "os_CreateRemoteThread os 0 0 = 0"
    and "\<forall>k. os_WaitForSingleObject os 0 k \<noteq> 0"
  shows "\<not> is_returned (fst (call_external_cdecl_function os process_id function_address argc args)) \<and>
     take 2 (snd (call_external_cdecl_function os process_id function_address argc args)) =
       [OpenProcess process_id 0, VirtualAllocEx 0 (caller_size argc) 0] \<and>
     filter is_acquired (filter is_remote_allocation
       (snd (call_external_cdecl_function os process_id function_address argc args))) = []"
proof -
  have h: "process_handle_of os process_id = 0" "caller_address_of os process_id argc = 0"
    "thread_handle_of os process_id argc = 0"
    using assms(1-3) by (simp_all add: process_handle_of_def caller_address_of_def thread_handle_of_def)
  have w: "wait_loop os (thread_handle_of os process_id argc) 0 = None"
    unfolding h using assms(4) by (intro wait_loop_never) simp
  show ?thesis
  proof (cases "write_caller (if os_malloc os (caller_size argc) then Some (malloc_block (caller_size argc)) else None)
             function_address (caller_address_of os process_id argc) argc args")
    case (Inl u)
    then show ?thesis by (simp add: call_undefined h)
  next
    case (Inr stub)
    with w show ?thesis by (simp add: call_hangs h)
  qed
qed

text \<open>The theorem in the environment without the process.\<close>

theorem open_failure_is_not_reported_witness:
  "os_OpenProcess os_no_process 4242 = 0 \<and>
   \<not> is_returned (fst (call_external_cdecl_function os_no_process 4242 0x401000 0 [])) \<and>
   take 2 (snd (call_external_cdecl_function os_no_process 4242 0x401000 0 [])) =
     [OpenProcess 4242 0, VirtualAllocEx 0 9 0]"
proof -
  have a: "os_OpenProcess os_no_process 4242 = 0"
    "os_VirtualAllocEx os_no_process 0 (caller_size 0) = 0"
    "os_CreateRemoteThread os_no_process 0 0 = 0"
    "\<forall>k. os_WaitForSingleObject os_no_process 0 k \<noteq> 0"
    by (simp_all add: os_no_process_def)
  have s: "caller_size 0 = 9" by (simp add: caller_size_def)
  from open_failure_is_not_reported[OF a, of "0x401000" "[]"] a(1) s show ?thesis by simp
qed

subsection \<open>C6: releases\<close>

text \<open>
  C6, as stated, when the target refuses the allocation: three acquisitions succeed
  (the process handle, the stub buffer, the thread handle) and four releases are
  performed, \<^verbatim>\<open>VirtualFreeEx\<close> on the null address among them.
\<close>

theorem failed_allocation_counterexample:
  "fst (call_external_cdecl_function os_no_memory 4242 0x401000 0 []) = Returned 0xC0000005 \<and>
   length (filter is_release (snd (call_external_cdecl_function os_no_memory 4242 0x401000 0 []))) = 4 \<and>
   length (filter is_acquired (snd (call_external_cdecl_function os_no_memory 4242 0x401000 0 []))) = 3"
  by code_simp

text \<open>
  C6, amended: a run that returns performs exactly four releases, in the order thread
  handle, stub buffer, remote block, process handle, whether or not the matching
  acquisition succeeded; their number is the number of acquisitions that succeeded
  exactly when the process handle, the remote block and the thread handle were all
  obtained. A run that does not return performs no release.
\<close>

theorem releases_are_unconditional:
  "filter is_release (snd (call_external_cdecl_function os process_id function_address argc args)) =
     (if is_returned (fst (call_external_cdecl_function os process_id function_address argc args))
      then [CloseHandle (thread_handle_of os process_id argc),
            Free,
            VirtualFreeEx (process_handle_of os process_id) (caller_address_of os process_id argc)
              (caller_size argc) MEM_FREE,
            CloseHandle (process_handle_of os process_id)]
      else []) \<and>
   (is_returned (fst (call_external_cdecl_function os process_id function_address argc args)) \<longrightarrow>
      (length (filter is_release (snd (call_external_cdecl_function os process_id function_address argc args)))
         = length (filter is_acquired (snd (call_external_cdecl_function os process_id function_address argc args))))
      = (process_handle_of os process_id \<noteq> 0 \<and> caller_address_of os process_id argc \<noteq> 0
           \<and> thread_handle_of os process_id argc \<noteq> 0))"
proof (cases "write_caller (if os_malloc os (caller_size argc) then Some (malloc_block (caller_size argc)) else None)
             function_address (caller_address_of os process_id argc) argc args")
  case (Inl u)
  then show ?thesis by (simp add: call_undefined)
next
  case (Inr stub)
  then have ok: "os_malloc os (caller_size argc)" by (rule malloc_needed)
  show ?thesis
  proof (cases "wait_loop os (thread_handle_of os process_id argc) 0")
    case None
    with Inr show ?thesis by (simp add: call_hangs)
  next
    case (Some n)
    with Inr ok show ?thesis by (simp add: call_returns)
  qed
qed

text \<open>The theorem in the environment where every call succeeds: four and four.\<close>

theorem releases_are_unconditional_witness:
  "is_returned (fst (call_external_cdecl_function os_running 4242 0x401000 2 [1, 1])) \<and>
   filter is_release (snd (call_external_cdecl_function os_running 4242 0x401000 2 [1, 1])) =
     [CloseHandle 0x104, Free, VirtualFreeEx 0x100 0x20000 19 MEM_FREE, CloseHandle 0x100] \<and>
   length (filter is_acquired (snd (call_external_cdecl_function os_running 4242 0x401000 2 [1, 1]))) = 4"
proof -
  have r: "is_returned (fst (call_external_cdecl_function os_running 4242 0x401000 2 [1, 1]))"
    by code_simp
  have h: "process_handle_of os_running 4242 = 0x100" "caller_address_of os_running 4242 2 = 0x20000"
    "thread_handle_of os_running 4242 2 = 0x104" "caller_size 2 = 19"
    by (simp_all add: process_handle_of_def caller_address_of_def thread_handle_of_def os_running_def
        caller_size_def)
  note t = releases_are_unconditional[of os_running 4242 "0x401000" 2 "[1, 1]"]
  from t r have rel:
    "filter is_release (snd (call_external_cdecl_function os_running 4242 0x401000 2 [1, 1])) =
      [CloseHandle 0x104, Free, VirtualFreeEx 0x100 0x20000 19 MEM_FREE, CloseHandle 0x100]"
    unfolding h by simp
  have "process_handle_of os_running 4242 \<noteq> 0 \<and> caller_address_of os_running 4242 2 \<noteq> 0
      \<and> thread_handle_of os_running 4242 2 \<noteq> 0"
    by (simp add: h)
  with t r have
    "length (filter is_release (snd (call_external_cdecl_function os_running 4242 0x401000 2 [1, 1])))
      = length (filter is_acquired (snd (call_external_cdecl_function os_running 4242 0x401000 2 [1, 1])))"
    by blast
  then have "length (filter is_acquired (snd (call_external_cdecl_function os_running 4242 0x401000 2 [1, 1]))) = 4"
    unfolding rel by simp
  with rel r show ?thesis by simp
qed

subsection \<open>C7: the wait\<close>

text \<open>
  C7, as stated, for a thread that is seen finished at the third poll: the function
  calls \<^verbatim>\<open>WaitForSingleObject\<close> three times, each time with the timeout 0; the first
  two calls return \<^verbatim>\<open>WAIT_TIMEOUT\<close> at once.
\<close>

theorem polling_counterexample:
  "filter is_wait (snd (call_external_cdecl_function os_running 4242 0x401000 2 [1, 1])) =
     [WaitForSingleObject 0x104 0 0x102, WaitForSingleObject 0x104 0 0x102, WaitForSingleObject 0x104 0 0]"
  by code_simp

text \<open>
  C7, amended: the wait is a polling loop. When the assembly is within bounds and the
  first call of \<^verbatim>\<open>WaitForSingleObject\<close> that returns 0 is call number \<open>d + 1\<close>, the
  function makes exactly \<open>d + 1\<close> calls of \<^verbatim>\<open>WaitForSingleObject\<close> on the thread
  handle, every one with the timeout 0.
\<close>

theorem wait_is_a_polling_loop:
  assumes "unat argc \<le> length args" and "unat argc \<le> 429496730"
    and "os_malloc os (caller_size argc)"
    and "\<forall>k<d. os_WaitForSingleObject os (thread_handle_of os process_id argc) k \<noteq> 0"
    and "os_WaitForSingleObject os (thread_handle_of os process_id argc) d = 0"
  shows "filter is_wait (snd (call_external_cdecl_function os process_id function_address argc args)) =
     map (\<lambda>k. WaitForSingleObject (thread_handle_of os process_id argc) 0
                (os_WaitForSingleObject os (thread_handle_of os process_id argc) k)) [0..<Suc d]"
proof -
  have wc: "write_caller (if os_malloc os (caller_size argc) then Some (malloc_block (caller_size argc)) else None)
             function_address (caller_address_of os process_id argc) argc args =
      Inr (map Some (caller_layout function_address (caller_address_of os process_id argc) argc args))"
    using assms(1-3) by (simp add: write_caller_layout)
  have w: "wait_loop os (thread_handle_of os process_id argc) 0 = Some (Suc (0 + d))"
    using assms(4,5) by (intro wait_loop_first) simp_all
  then have w': "wait_loop os (thread_handle_of os process_id argc) 0 = Some (Suc d)" by simp
  show ?thesis
    by (simp add: call_returns[OF wc w'] wait_events_def[symmetric] del: upt_Suc)
qed

text \<open>The theorem in the environment where the third poll returns 0.\<close>

theorem wait_is_a_polling_loop_witness:
  "unat (2 :: dword) \<le> length [1, 1 :: dword] \<and>
   os_WaitForSingleObject os_running (thread_handle_of os_running 4242 2) 2 = 0 \<and>
   filter is_wait (snd (call_external_cdecl_function os_running 4242 0x401000 2 [1, 1])) =
     [WaitForSingleObject 0x104 0 0x102, WaitForSingleObject 0x104 0 0x102,
      WaitForSingleObject 0x104 0 0]"
proof -
  have h: "thread_handle_of os_running 4242 2 = 0x104"
    by (simp add: thread_handle_of_def os_running_def)
  have a: "unat (2 :: dword) \<le> length [1, 1 :: dword]" "unat (2 :: dword) \<le> 429496730"
    "os_malloc os_running (caller_size 2)"
    "\<forall>k<2. os_WaitForSingleObject os_running (thread_handle_of os_running 4242 2) k \<noteq> 0"
    "os_WaitForSingleObject os_running (thread_handle_of os_running 4242 2) 2 = 0"
    by (simp_all add: os_running_def)
  have u: "[0..<Suc 2] = [0, 1, 2]" by (simp add: upt_rec)
  from wait_is_a_polling_loop[OF a, of "0x401000"] a(1,5) show ?thesis
    unfolding h u by (simp add: os_running_def)
qed

subsection \<open>C8: requests are not validated\<close>

text \<open>
  C8, as stated, for the command line \<^verbatim>\<open>ExternalCaller.exe 4242 401000 1 7 9\<close>, whose
  argument count 1 does not match its two arguments: the request is not rejected. The
  second argument is dropped, the process is opened, and the function at 0x401000 is
  called with the argument 7. For the count \<open>-1\<close> the request is not rejected either:
  \<^verbatim>\<open>main\<close> hands the null pointer \<^verbatim>\<open>argv[4]\<close> to \<^verbatim>\<open>atoi\<close>.
\<close>

theorem count_mismatch_counterexample:
  "main libc_numerals os_running [''ExternalCaller.exe'', ''4242'', ''401000'', ''1'', ''7'', ''9''] =
     (Called (Returned 2),
      [OpenProcess 4242 0x100, VirtualAllocEx 0x100 14 0x20000, Malloc 14 True,
       WriteProcessMemory 0x100 0x20000
         (map Some [0x68, 7, 0, 0, 0, 0xe8, 0xf6, 0x0f, 0x3e, 0, 0x83, 0xc4, 4, 0xc3]) 14,
       CreateRemoteThread 0x100 0x20000 0x104,
       WaitForSingleObject 0x104 0 0x102, WaitForSingleObject 0x104 0 0x102,
       WaitForSingleObject 0x104 0 0,
       GetExitCodeThread 0x104 (Some 2), CloseHandle 0x104, Free,
       VirtualFreeEx 0x100 0x20000 14 MEM_FREE, CloseHandle 0x100]) \<and>
   main libc_numerals os_running [''ExternalCaller.exe'', ''4242'', ''401000'', ''-1''] =
     (ParseFault NullDereference, [])"
  by code_simp

text \<open>
  C8, amended: no request is rejected with an error. A command line with fewer than
  three arguments gets the usage text and no Windows call. An argument count above the
  number of arguments given, as every negative count is once converted to a
  \<^verbatim>\<open>DWORD\<close>, makes \<^verbatim>\<open>main\<close> read \<^verbatim>\<open>argv\<close> at or past its end, which is undefined,
  before any Windows call. An argument count up to the number of arguments given (and
  below \<open>2 ^ 30\<close>, the block for the arguments being allocated) is accepted, matching
  or not: the function is called with that many arguments and opens the process first.
\<close>

theorem malformed_requests_are_not_rejected:
  "(length argv < 4 \<longrightarrow> main libc os argv = (UsageError, [])) \<and>
   (4 \<le> length argv \<and> length argv - 4 < unat (arguments_number_of libc argv) \<longrightarrow>
      (\<exists>u. main libc os argv = (ParseFault u, []))) \<and>
   (4 \<le> length argv \<and> unat (arguments_number_of libc argv) \<le> length argv - 4 \<and>
    unat (arguments_number_of libc argv) < 2 ^ 30 \<and>
    os_malloc os (4 * arguments_number_of libc argv) \<longrightarrow>
      fst (main libc os argv) =
        Called (fst (call_external_cdecl_function os (process_id_of libc argv)
                  (libc_strtoul libc (argv ! 2)) (arguments_number_of libc argv)
                  (arguments_of libc argv))) \<and>
      take 1 (snd (main libc os argv)) =
        [OpenProcess (process_id_of libc argv) (os_OpenProcess os (process_id_of libc argv))])"
proof (intro conjI impI)
  assume "length argv < 4"
  then show "main libc os argv = (UsageError, [])" by (simp add: main_def)
next
  assume a: "4 \<le> length argv \<and> length argv - 4 < unat (arguments_number_of libc argv)"
  then obtain u where
    "parse_arguments libc argv (arguments_number_of libc argv)
       (os_malloc os (4 * arguments_number_of libc argv)) 0 [] = Inl u"
    using parse_arguments_faults[where argv=argv and n="arguments_number_of libc argv" and i=0
        and libc=libc and allocated="os_malloc os (4 * arguments_number_of libc argv)" and acc="[]"]
    by auto
  then have "main libc os argv = (ParseFault u, [])"
    using a by (simp add: main_def Let_def arguments_number_of_def[symmetric])
  then show "\<exists>u. main libc os argv = (ParseFault u, [])" ..
next
  assume a: "4 \<le> length argv \<and> unat (arguments_number_of libc argv) \<le> length argv - 4 \<and>
    unat (arguments_number_of libc argv) < 2 ^ 30 \<and>
    os_malloc os (4 * arguments_number_of libc argv)"
  then have m: "main libc os argv =
     (Called (fst (call_external_cdecl_function os (process_id_of libc argv)
                (libc_strtoul libc (argv ! 2)) (arguments_number_of libc argv) (arguments_of libc argv))),
      snd (call_external_cdecl_function os (process_id_of libc argv)
                (libc_strtoul libc (argv ! 2)) (arguments_number_of libc argv) (arguments_of libc argv)))"
    by (intro main_calls) simp_all
  show "fst (main libc os argv) =
        Called (fst (call_external_cdecl_function os (process_id_of libc argv)
                  (libc_strtoul libc (argv ! 2)) (arguments_number_of libc argv)
                  (arguments_of libc argv)))"
    by (simp add: m)
  have "take 1 (take 3 (snd (main libc os argv))) =
      [OpenProcess (process_id_of libc argv) (os_OpenProcess os (process_id_of libc argv))]"
    unfolding m snd_conv first_three_calls by (simp add: process_handle_of_def)
  then show "take 1 (snd (main libc os argv)) =
        [OpenProcess (process_id_of libc argv) (os_OpenProcess os (process_id_of libc argv))]"
    by simp
qed

text \<open>The theorem at three command lines: no count, the count \<open>-1\<close>, and a count of 1
  with two arguments.\<close>

theorem malformed_requests_are_not_rejected_witness:
  "main libc_numerals os_running [''ExternalCaller.exe'', ''4242'', ''401000''] = (UsageError, []) \<and>
   (\<exists>u. main libc_numerals os_running [''ExternalCaller.exe'', ''4242'', ''401000'', ''-1'']
          = (ParseFault u, [])) \<and>
   take 1 (snd (main libc_numerals os_running
                  [''ExternalCaller.exe'', ''4242'', ''401000'', ''1'', ''7'', ''9''])) =
     [OpenProcess 4242 0x100]"
proof -
  have n1: "arguments_number_of libc_numerals [''ExternalCaller.exe'', ''4242'', ''401000'', ''-1'']
      = 0xFFFFFFFF"
    by code_simp
  have n2: "arguments_number_of libc_numerals
      [''ExternalCaller.exe'', ''4242'', ''401000'', ''1'', ''7'', ''9''] = 1"
    by code_simp
  have p: "process_id_of libc_numerals
      [''ExternalCaller.exe'', ''4242'', ''401000'', ''1'', ''7'', ''9''] = 4242"
    by code_simp
  have m: "os_malloc os_running 4" "os_OpenProcess os_running 4242 = 0x100"
    by (simp_all add: os_running_def)
  from malformed_requests_are_not_rejected[of "[''ExternalCaller.exe'', ''4242'', ''401000'']"
      libc_numerals os_running]
  have 1: "main libc_numerals os_running [''ExternalCaller.exe'', ''4242'', ''401000''] = (UsageError, [])"
    by simp
  from malformed_requests_are_not_rejected[of "[''ExternalCaller.exe'', ''4242'', ''401000'', ''-1'']"
      libc_numerals os_running]
  have 2: "\<exists>u. main libc_numerals os_running [''ExternalCaller.exe'', ''4242'', ''401000'', ''-1'']
          = (ParseFault u, [])"
    by (simp add: n1)
  from malformed_requests_are_not_rejected[of
      "[''ExternalCaller.exe'', ''4242'', ''401000'', ''1'', ''7'', ''9'']" libc_numerals os_running]
  have 3: "take 1 (snd (main libc_numerals os_running
                  [''ExternalCaller.exe'', ''4242'', ''401000'', ''1'', ''7'', ''9''])) =
     [OpenProcess 4242 0x100]"
    by (simp add: n2 p m)
  from 1 2 3 show ?thesis by blast
qed

subsection \<open>C9: the bounds of the assembly\<close>



subsection \<open>C10: the returned value\<close>

text \<open>
  C10, as stated, for a called function that never returns: every poll returns
  \<^verbatim>\<open>WAIT_TIMEOUT\<close> and the function does not return a value.
\<close>

theorem stalled_thread_counterexample:
  "fst (call_external_cdecl_function os_stalled 4242 0x401000 2 [1, 1]) = Hangs"
proof -
  have wc: "write_caller (if os_malloc os_stalled (caller_size 2) then Some (malloc_block (caller_size 2)) else None)
             0x401000 (caller_address_of os_stalled 4242 2) 2 [1, 1] =
      Inr (map Some (caller_layout 0x401000 (caller_address_of os_stalled 4242 2) 2 [1, 1]))"
    by (simp add: write_caller_layout os_stalled_def)
  have w: "wait_loop os_stalled (thread_handle_of os_stalled 4242 2) 0 = None"
    by (rule wait_loop_never) (simp add: os_stalled_def)
  from call_hangs[OF wc w] show ?thesis by simp
qed

text \<open>
  C10, amended: when the assembly is within bounds and some call of
  \<^verbatim>\<open>WaitForSingleObject\<close> returns 0, the function returns a value: the exit code of
  the thread when \<^verbatim>\<open>GetExitCodeThread\<close> stores one, and otherwise the 0 that
  \<^verbatim>\<open>result\<close> was initialised with, so that a failed read and an exit code 0 give
  the same result.
\<close>

theorem returns_exit_code_or_zero:
  assumes "unat argc \<le> length args" and "unat argc \<le> 429496730"
    and "os_malloc os (caller_size argc)"
    and "\<exists>k. os_WaitForSingleObject os (thread_handle_of os process_id argc) k = 0"
  shows "fst (call_external_cdecl_function os process_id function_address argc args) =
     Returned (case os_GetExitCodeThread os (thread_handle_of os process_id argc) of
                 None \<Rightarrow> 0 | Some v \<Rightarrow> v)"
proof -
  have wc: "write_caller (if os_malloc os (caller_size argc) then Some (malloc_block (caller_size argc)) else None)
             function_address (caller_address_of os process_id argc) argc args =
      Inr (map Some (caller_layout function_address (caller_address_of os process_id argc) argc args))"
    using assms(1-3) by (simp add: write_caller_layout)
  from wait_loop_terminates[OF assms(4)] obtain n where
    "wait_loop os (thread_handle_of os process_id argc) 0 = Some n" ..
  from call_returns[OF wc this] show ?thesis by simp
qed

text \<open>
  The theorem in two environments: the exit code is 0 in the first and is not read in
  the second; both runs return 0.
\<close>

theorem returns_exit_code_or_zero_witness:
  "fst (call_external_cdecl_function os_returns_zero 4242 0x401000 2 [1, 1]) = Returned 0 \<and>
   os_GetExitCodeThread os_returns_zero (thread_handle_of os_returns_zero 4242 2) = Some 0 \<and>
   fst (call_external_cdecl_function os_exit_code_unread 4242 0x401000 2 [1, 1]) = Returned 0 \<and>
   os_GetExitCodeThread os_exit_code_unread (thread_handle_of os_exit_code_unread 4242 2) = None"
proof -
  have a: "unat (2 :: dword) \<le> length [1, 1 :: dword]" "unat (2 :: dword) \<le> 429496730"
    by simp_all
  have z: "os_malloc os_returns_zero (caller_size 2)"
    "\<exists>k. os_WaitForSingleObject os_returns_zero (thread_handle_of os_returns_zero 4242 2) k = 0"
    "os_GetExitCodeThread os_returns_zero (thread_handle_of os_returns_zero 4242 2) = Some 0"
    by (simp_all add: os_returns_zero_def)
  have u: "os_malloc os_exit_code_unread (caller_size 2)"
    "\<exists>k. os_WaitForSingleObject os_exit_code_unread (thread_handle_of os_exit_code_unread 4242 2) k = 0"
    "os_GetExitCodeThread os_exit_code_unread (thread_handle_of os_exit_code_unread 4242 2) = None"
    by (simp_all add: os_exit_code_unread_def)
  from returns_exit_code_or_zero[OF a z(1,2), of "0x401000"]
    returns_exit_code_or_zero[OF a u(1,2), of "0x401000"] z(3) u(3)
  show ?thesis by simp
qed

end
